theory Spec2Isabelle
  imports Complex_Main "HOL-Library.Multiset"
begin

section \<open>Data model\<close>

text \<open>
  The program computes with C++ \<open>float\<close> and \<open>int\<close>. Floating-point values are
  idealised as real numbers (no rounding, no NaN, no infinities); \<open>int\<close> values are
  integers, and the one place where 32-bit signed arithmetic could overflow
  (\<open>i_numRayBounces - 1\<close>) is written out as an error.
\<close>

type_synonym float = real

datatype Vec3f = Vec3f (X: float) (Y: float) (Z: float)

datatype Ray = Ray (Origin: Vec3f) (Direction: Vec3f)

datatype FloatRange = FloatRange (Min_r: float) (Max_r: float)

text \<open>
  \<open>raytrace::HitRecord\<close>: the code of \<open>main.cpp\<close> reads \<open>m_magnitude\<close> and
  \<open>m_material\<close>; the material is held by a shared pointer, which may be null.
\<close>

record 'm HitRecord =
  m_position :: Vec3f
  m_normal :: Vec3f
  m_magnitude :: float
  m_material :: "'m option"

text \<open>
  \<open>SceneObject::Hit\<close> and \<open>Material::Scatter\<close> are virtual member functions whose
  implementations are not part of \<open>main.cpp\<close>; they are parameters of the model.
  \<open>Hit\<close> receives the record by reference and returns whether the ray hit, so the
  model returns the flag and the record as it stands after the call. \<open>Scatter\<close> draws
  from the process-wide random generator, whose state \<open>'g\<close> is passed explicitly; its
  out-parameters (attenuation, scattered ray) are returned with the flag.
\<close>

type_synonym ('o, 'm) hit_fn = "'o \<Rightarrow> Ray \<Rightarrow> FloatRange \<Rightarrow> 'm HitRecord \<Rightarrow> bool \<times> 'm HitRecord"

type_synonym ('m, 'g) scatter_fn = "'m \<Rightarrow> Ray \<Rightarrow> 'm HitRecord \<Rightarrow> 'g \<Rightarrow> (bool \<times> Vec3f \<times> Ray) \<times> 'g"

definition FLT_MAX :: float where
  "FLT_MAX = 340282346638528859811704183484516925440"

definition INT_MIN :: int where
  "INT_MIN = - 2147483648"

text \<open>
  Modelled from the spec: \<open>gm::LinearInterpolation\<close> (\<open>gm/functions/linearInterpolation.h\<close>
  is not among the sources) is the standard linear interpolation between a source and a
  target value at a weight, taken componentwise.
\<close>

definition LinearInterpolation :: "Vec3f \<Rightarrow> Vec3f \<Rightarrow> float \<Rightarrow> Vec3f" where
  "LinearInterpolation a b weight =
     Vec3f ((1 - weight) * X a + weight * X b)
           ((1 - weight) * Y a + weight * Y b)
           ((1 - weight) * Z a + weight * Z b)"

section \<open>The ray-colour integrator\<close>

text \<open>The local variables of the intersection loop of \<open>ComputeRayColor\<close>.\<close>

record 'm ScanState =
  hitRecord :: "'m HitRecord"
  objectHit :: bool
  nearestHitMagnitude :: float

text \<open>One iteration of the loop over the scene objects (lines 67 to 76).\<close>

definition magnitudeRange :: "'m ScanState \<Rightarrow> FloatRange" where
  "magnitudeRange s = FloatRange 0.001 (nearestHitMagnitude s)"

definition scan_step :: "('o, 'm) hit_fn \<Rightarrow> Ray \<Rightarrow> 'o \<Rightarrow> 'm ScanState \<Rightarrow> 'm ScanState" where
  "scan_step hit i_ray sceneObject s =
     (let (isHit, rec') = hit sceneObject i_ray (magnitudeRange s) (hitRecord s)
      in if isHit
         then \<lparr>hitRecord = rec', objectHit = True, nearestHitMagnitude = m_magnitude rec'\<rparr>
         else s\<lparr>hitRecord := rec'\<rparr>)"

definition scan_init :: "'m HitRecord \<Rightarrow> 'm ScanState" where
  "scan_init rec0 = \<lparr>hitRecord = rec0, objectHit = False, nearestHitMagnitude = FLT_MAX\<rparr>"

definition scan :: "('o, 'm) hit_fn \<Rightarrow> Ray \<Rightarrow> 'm HitRecord \<Rightarrow> 'o list \<Rightarrow> 'm ScanState" where
  "scan hit i_ray rec0 i_sceneObjectPtrs = fold (scan_step hit i_ray) i_sceneObjectPtrs (scan_init rec0)"

datatype error = StackExhausted | SignedOverflow | NullMaterial | NonFinite | OutOfBounds | ParseException

text \<open>
  \<open>ComputeRayColor\<close> (lines 54 to 103). The first argument after the collaborators
  (\<open>hit\<close>, \<open>scatter\<close>, and \<open>rec0\<close>, the default-constructed hit record) is the number
  of nested activations the call stack still has room for: every activation uses one,
  and an activation that finds none left is \<open>StackExhausted\<close>. Dereferencing a null
  \<open>m_material\<close> is \<open>NullMaterial\<close>; \<open>i_numRayBounces - 1\<close> at the least \<open>int\<close>
  is \<open>SignedOverflow\<close>. The ray and the scene are passed by const reference: they are
  values here, and the function is a function of them, of its collaborators and of the
  generator state. That the C++ function reads nothing else and writes to neither is
  what this embedding takes for granted, not something it can show.
\<close>

fun ComputeRayColor ::
  "('o, 'm) hit_fn \<Rightarrow> ('m, 'g) scatter_fn \<Rightarrow> 'm HitRecord \<Rightarrow> nat \<Rightarrow>
   Ray \<Rightarrow> int \<Rightarrow> 'o list \<Rightarrow> 'g \<Rightarrow> error + (Vec3f \<times> 'g)" where
  "ComputeRayColor hit scatter rec0 0 i_ray i_numRayBounces i_sceneObjectPtrs g = Inl StackExhausted"
| "ComputeRayColor hit scatter rec0 (Suc depth) i_ray i_numRayBounces i_sceneObjectPtrs g =
     (if i_numRayBounces = 0 then Inr (Vec3f 0 0 0, g)
      else
        let s = scan hit i_ray rec0 i_sceneObjectPtrs in
        if objectHit s then
          (case m_material (hitRecord s) of
             None \<Rightarrow> Inl NullMaterial
           | Some material \<Rightarrow>
               (let ((scattered, attenuation, scatteredRay), g') = scatter material i_ray (hitRecord s) g
                in if scattered then
                     (if i_numRayBounces = INT_MIN then Inl SignedOverflow
                      else
                        (case ComputeRayColor hit scatter rec0 depth scatteredRay
                                (i_numRayBounces - 1) i_sceneObjectPtrs g' of
                           Inl e \<Rightarrow> Inl e
                         | Inr (descendentColor, g'') \<Rightarrow>
                             Inr (Vec3f (X attenuation * X descendentColor)
                                        (Y attenuation * Y descendentColor)
                                        (Z attenuation * Z descendentColor), g'')))
                   else Inr (Vec3f 0 0 0, g')))
        else
          Inr (LinearInterpolation (Vec3f 1 1 1) (Vec3f 0.5 0.7 1.0)
                 (0.5 * Y (Direction i_ray) + 1.0), g))"

section \<open>Collaborators used by the statements\<close>

text \<open>
  Modelled from the spec: \<open>gm::Normalize\<close> (\<open>gm/functions/normalize.h\<close> is not among
  the sources) divides a vector by its length. For the zero vector the C++ result is
  not a number; the model is only read at vectors of non-zero length.
\<close>

definition Length :: "Vec3f \<Rightarrow> float" where
  "Length v = sqrt (X v * X v + Y v * Y v + Z v * Z v)"

definition Normalize :: "Vec3f \<Rightarrow> Vec3f" where
  "Normalize v = Vec3f (X v / Length v) (Y v / Length v) (Z v / Length v)"

text \<open>
  Modelled from the spec: a ray supports evaluating a position at a scalar parameter,
  \<open>origin + t * direction\<close> (\<open>gm/types/ray.h\<close> is not among the sources).
\<close>

definition RayPosition :: "Ray \<Rightarrow> float \<Rightarrow> Vec3f" where
  "RayPosition r t =
     Vec3f (X (Origin r) + t * X (Direction r))
           (Y (Origin r) + t * Y (Direction r))
           (Z (Origin r) + t * Z (Direction r))"

text \<open>
  Modelled from the spec: the contract of \<open>SceneObject::Hit\<close> (section 4.1; the scene
  object classes are not among the sources). An object has intersection parameters
  (\<open>roots\<close>) along a ray; \<open>Hit\<close> selects the smallest one strictly inside the interval,
  and on success overwrites the record with the point, the normal, the parameter and
  the object's material; otherwise it leaves the record untouched and reports failure.
\<close>

definition nearest_root :: "('o \<Rightarrow> Ray \<Rightarrow> float list) \<Rightarrow> 'o \<Rightarrow> Ray \<Rightarrow> FloatRange \<Rightarrow> float option" where
  "nearest_root roots obj i_ray rg =
     (case filter (\<lambda>t. Min_r rg < t \<and> t < Max_r rg) (roots obj i_ray) of
        [] \<Rightarrow> None
      | t # ts \<Rightarrow> Some (fold min ts t))"

definition Hit_nearest ::
  "('o \<Rightarrow> Ray \<Rightarrow> float list) \<Rightarrow> ('o \<Rightarrow> Ray \<Rightarrow> float \<Rightarrow> Vec3f) \<Rightarrow> ('o \<Rightarrow> 'm) \<Rightarrow> ('o, 'm) hit_fn" where
  "Hit_nearest roots normal_at material_of obj i_ray rg rec =
     (case nearest_root roots obj i_ray rg of
        None \<Rightarrow> (False, rec)
      | Some t \<Rightarrow>
          (True, \<lparr>m_position = RayPosition i_ray t,
                  m_normal = normal_at obj i_ray t,
                  m_magnitude = t,
                  m_material = Some (material_of obj)\<rparr>))"

text \<open>
  Two materials for concrete scenes: \<open>Black\<close> absorbs every ray; \<open>Diffuse albedo\<close>
  always scatters along the surface normal with attenuation \<open>albedo\<close>. The random
  generator of these scenes is a counter of the calls made.
\<close>

datatype Material = Black | Diffuse Vec3f

fun Scatter_example :: "(Material, nat) scatter_fn" where
  "Scatter_example Black i_ray rec g = ((False, Vec3f 0 0 0, i_ray), Suc g)"
| "Scatter_example (Diffuse albedo) i_ray rec g =
     ((True, albedo, Ray (m_position rec) (m_normal rec)), Suc g)"

text \<open>
  A scene object for concrete scenes: the plane \<open>z = plane_z\<close>, whose normal faces the
  side the ray comes from.
\<close>

datatype Plane = Plane (plane_z: float) (plane_material: Material)

definition plane_roots :: "Plane \<Rightarrow> Ray \<Rightarrow> float list" where
  "plane_roots p r =
     (if Z (Direction r) = 0 then [] else [(plane_z p - Z (Origin r)) / Z (Direction r)])"

definition plane_normal :: "Plane \<Rightarrow> Ray \<Rightarrow> float \<Rightarrow> Vec3f" where
  "plane_normal p r t = Vec3f 0 0 (if Z (Direction r) < 0 then 1 else - 1)"

definition Hit_plane :: "(Plane, Material) hit_fn" where
  "Hit_plane = Hit_nearest plane_roots plane_normal plane_material"

definition record_default :: "Material HitRecord" where
  "record_default = \<lparr>m_position = Vec3f 0 0 0, m_normal = Vec3f 0 0 0, m_magnitude = 0, m_material = None\<rparr>"

definition unit_interval :: "Vec3f \<Rightarrow> bool" where
  "unit_interval v \<longleftrightarrow> 0 \<le> X v \<and> X v \<le> 1 \<and> 0 \<le> Y v \<and> Y v \<le> 1 \<and> 0 \<le> Z v \<and> Z v \<le> 1"

text \<open>
  Modelled from the spec: what every \<open>Hit\<close> implementation guarantees (section 4.1).
  On success the record holds the object's material and a parameter strictly inside
  the interval; on failure the record is untouched.
\<close>

definition Hit_contract :: "('o, 'm) hit_fn \<Rightarrow> bool" where
  "Hit_contract hit \<longleftrightarrow>
     (\<forall>obj i_ray rg rec.
        (fst (hit obj i_ray rg rec) \<longrightarrow>
           m_material (snd (hit obj i_ray rg rec)) \<noteq> None
           \<and> Min_r rg < m_magnitude (snd (hit obj i_ray rg rec))
           \<and> m_magnitude (snd (hit obj i_ray rg rec)) < Max_r rg)
        \<and> (\<not> fst (hit obj i_ray rg rec) \<longrightarrow> snd (hit obj i_ray rg rec) = rec))"

text \<open>
  A closed scene: two facing diffuse planes, and a ray travelling between them.
\<close>

definition gray :: Vec3f where
  "gray = Vec3f (1 / 2) (1 / 2) (1 / 2)"

definition corridor :: "Plane list" where
  "corridor = [Plane (- 1) (Diffuse gray), Plane 1 (Diffuse gray)]"

definition ray_up :: Ray where
  "ray_up = Ray (Vec3f 0 0 (- 1)) (Vec3f 0 0 1)"

definition ray_down :: Ray where
  "ray_down = Ray (Vec3f 0 0 1) (Vec3f 0 0 (- 1))"

text \<open>
  The calls of \<open>Hit\<close> that the loop makes, in order: the interval passed, whether the
  object reported a hit, and the parameter that it left in the record. \<open>reported\<close>
  keeps the parameters of the successful calls.
\<close>

fun hit_calls ::
  "('o, 'm) hit_fn \<Rightarrow> Ray \<Rightarrow> 'm ScanState \<Rightarrow> 'o list \<Rightarrow> (FloatRange \<times> bool \<times> float) list" where
  "hit_calls hit i_ray s [] = []"
| "hit_calls hit i_ray s (sceneObject # rest) =
     (magnitudeRange s,
      fst (hit sceneObject i_ray (magnitudeRange s) (hitRecord s)),
      m_magnitude (snd (hit sceneObject i_ray (magnitudeRange s) (hitRecord s))))
     # hit_calls hit i_ray (scan_step hit i_ray sceneObject s) rest"


section \<open>Vec2iRange and its iterator\<close>

text \<open>
  \<open>gm::Vec2i\<close> holds two \<open>int\<close> elements. Under the precondition of the statement
  below, every sum that \<open>operator++\<close> computes is at most a component of the maximum,
  so no 32-bit overflow can occur and the elements are modelled as integers.
\<close>

datatype Vec2i = Vec2i (X2: int) (Y2: int)

datatype Vec2iRange = Vec2iRange (Min_v: Vec2i) (Max_v: Vec2i)

text \<open>\<open>Vec2iRange::iterator\<close> (lines 94 to 145): \<open>operator!=\<close>, \<open>operator*\<close>, \<open>operator++\<close>.\<close>

datatype iterator = iterator (m_currentValue: Vec2i) (m_min: Vec2i) (m_max: Vec2i)

definition not_equal :: "iterator \<Rightarrow> iterator \<Rightarrow> bool" where
  "not_equal it i_other \<longleftrightarrow> m_currentValue it \<noteq> m_currentValue i_other"

definition deref :: "iterator \<Rightarrow> Vec2i" where
  "deref it = m_currentValue it"

definition increment :: "iterator \<Rightarrow> iterator" where
  "increment it =
     (if X2 (m_currentValue it) + 1 < X2 (m_max it) then
        iterator (Vec2i (X2 (m_currentValue it) + 1) (Y2 (m_currentValue it))) (m_min it) (m_max it)
      else if Y2 (m_currentValue it) + 1 < Y2 (m_max it) then
        iterator (Vec2i (X2 (m_min it)) (Y2 (m_currentValue it) + 1)) (m_min it) (m_max it)
      else
        iterator (m_max it) (m_min it) (m_max it))"

definition Vec2iRange_begin :: "Vec2iRange \<Rightarrow> iterator" where
  "Vec2iRange_begin r = iterator (Min_v r) (Min_v r) (Max_v r)"

definition Vec2iRange_end :: "Vec2iRange \<Rightarrow> iterator" where
  "Vec2iRange_end r = iterator (Max_v r) (Min_v r) (Max_v r)"

text \<open>
  The range-based \<open>for\<close> statement over two iterators: while the iterator differs from
  the end, visit the value and increment. The result is the list of the values
  visited, in order; a loop that never reaches the end has no result.
\<close>

partial_function (option) range_for :: "iterator \<Rightarrow> iterator \<Rightarrow> Vec2i list option" where
  "range_for it i_end =
     (if not_equal it i_end
      then Option.bind (range_for (increment it) i_end) (\<lambda>rest. Some (deref it # rest))
      else Some [])"

text \<open>
  The integer pairs of a rectangle in row-major order, \<open>x\<close> varying fastest: row after
  row by increasing \<open>y\<close>, and within a row by increasing \<open>x\<close>.
\<close>

definition row_major :: "Vec2i \<Rightarrow> Vec2i \<Rightarrow> Vec2i list" where
  "row_major lo hi = concat (map (\<lambda>y. map (\<lambda>x. Vec2i x y) [X2 lo..X2 hi - 1]) [Y2 lo..Y2 hi - 1])"

section \<open>The program\<close>

text \<open>
  Modelled from the spec: the componentwise arithmetic of \<open>gm::Vec3f\<close> (sum,
  difference, product with a scalar, division by a scalar) and \<open>gm::Clamp\<close>, which
  brings each channel into a range (the \<open>gm\<close> headers of these are not among the
  sources).
\<close>

definition Vec3f_add :: "Vec3f \<Rightarrow> Vec3f \<Rightarrow> Vec3f" where
  "Vec3f_add a b = Vec3f (X a + X b) (Y a + Y b) (Z a + Z b)"

definition Vec3f_sub :: "Vec3f \<Rightarrow> Vec3f \<Rightarrow> Vec3f" where
  "Vec3f_sub a b = Vec3f (X a - X b) (Y a - Y b) (Z a - Z b)"

definition Vec3f_scale :: "float \<Rightarrow> Vec3f \<Rightarrow> Vec3f" where
  "Vec3f_scale k a = Vec3f (k * X a) (k * Y a) (k * Z a)"

definition Vec3f_div :: "Vec3f \<Rightarrow> float \<Rightarrow> Vec3f" where
  "Vec3f_div a k = Vec3f (X a / k) (Y a / k) (Z a / k)"

definition c_normalizedRange :: FloatRange where
  "c_normalizedRange = FloatRange 0 1"

definition Clamp :: "Vec3f \<Rightarrow> FloatRange \<Rightarrow> Vec3f" where
  "Clamp v rg =
     Vec3f (min (max (X v) (Min_r rg)) (Max_r rg))
           (min (max (Y v) (Min_r rg)) (Max_r rg))
           (min (max (Z v) (Min_r rg)) (Max_r rg))"

text \<open>
  Modelled from the spec: the camera exposes an origin and three vectors (bottom-left
  corner of the viewport, horizontal span, vertical span); the image buffer is a grid
  addressed by \<open>(x, y)\<close> within \<open>[0,width) \<times> [0,height)\<close> that exposes its extent as a
  range. A write outside the grid is \<open>OutOfBounds\<close>. (\<open>raytrace/camera.h\<close> and
  \<open>raytrace/imageBuffer.h\<close> are not among the sources.)
\<close>

datatype Camera = Camera (CameraOrigin: Vec3f) (ViewportBottomLeft: Vec3f)
  (ViewportHorizontal: Vec3f) (ViewportVertical: Vec3f)

record ImageBuffer =
  buffer_width :: int
  buffer_height :: int
  buffer_pixels :: "Vec2i \<Rightarrow> Vec3f"

definition ImageBuffer_new :: "int \<Rightarrow> int \<Rightarrow> ImageBuffer" where
  "ImageBuffer_new w h = \<lparr>buffer_width = w, buffer_height = h, buffer_pixels = (\<lambda>p. Vec3f 0 0 0)\<rparr>"

definition Extent :: "ImageBuffer \<Rightarrow> Vec2iRange" where
  "Extent img = Vec2iRange (Vec2i 0 0) (Vec2i (buffer_width img) (buffer_height img))"

definition ImageBuffer_write :: "ImageBuffer \<Rightarrow> int \<Rightarrow> int \<Rightarrow> Vec3f \<Rightarrow> error + ImageBuffer" where
  "ImageBuffer_write img x y color =
     (if 0 \<le> x \<and> x < buffer_width img \<and> 0 \<le> y \<and> y < buffer_height img
      then Inr (img\<lparr>buffer_pixels := (buffer_pixels img)(Vec2i x y := color)\<rparr>)
      else Inl OutOfBounds)"

text \<open>
  What the loops of \<open>main\<close> read: the collaborators of \<open>ComputeRayColor\<close>, the stack
  available to it, the random number source \<open>gm::RandomNumber\<close> (a parameter, with
  the generator state passed explicitly), the camera, the parsed sizes and the scene.
\<close>

record ('o, 'm, 'g) RenderContext =
  ctx_hit :: "('o, 'm) hit_fn"
  ctx_scatter :: "('m, 'g) scatter_fn"
  ctx_record :: "'m HitRecord"
  ctx_stack :: nat
  ctx_random :: "FloatRange \<Rightarrow> 'g \<Rightarrow> float \<times> 'g"
  camera :: Camera
  imageWidth :: int
  imageHeight :: int
  samplesPerPixel :: int
  rayBounceLimit :: int
  sceneObjectPtrs :: "'o list"

text \<open>
  One iteration of the sample loop (lines 178 to 193) on the running sum and the
  generator state. \<open>NonFinite\<close> marks the places where the \<open>float\<close> result is not a
  finite real number (a division by zero, the normalisation of a zero vector, the
  square root of a negative number): the program goes on with that value, and the
  model says nothing about what follows.
\<close>

definition sample ::
  "('o, 'm, 'g) RenderContext \<Rightarrow> Vec2i \<Rightarrow> Vec3f \<times> 'g \<Rightarrow> error + (Vec3f \<times> 'g)" where
  "sample ctx pixelCoord st =
     (let (pixelColor, g) = st;
          (r1, g1) = ctx_random ctx c_normalizedRange g;
          (r2, g2) = ctx_random ctx c_normalizedRange g1
      in if imageWidth ctx = 0 \<or> imageHeight ctx = 0 then Inl NonFinite
         else
           let u = (real_of_int (X2 pixelCoord) + r1) / real_of_int (imageWidth ctx);
               v = (real_of_int (Y2 pixelCoord) + r2) / real_of_int (imageHeight ctx);
               ray = Ray (CameraOrigin (camera ctx))
                       (Vec3f_sub
                          (Vec3f_add
                             (Vec3f_add (ViewportBottomLeft (camera ctx))
                                (Vec3f_scale u (ViewportHorizontal (camera ctx))))
                             (Vec3f_scale v (ViewportVertical (camera ctx))))
                          (CameraOrigin (camera ctx)))
           in if Length (Direction ray) = 0 then Inl NonFinite
              else
                (case ComputeRayColor (ctx_hit ctx) (ctx_scatter ctx) (ctx_record ctx) (ctx_stack ctx)
                        (Ray (Origin ray) (Normalize (Direction ray)))
                        (rayBounceLimit ctx) (sceneObjectPtrs ctx) g2 of
                   Inl e \<Rightarrow> Inl e
                 | Inr (color, g3) \<Rightarrow> Inr (Vec3f_add pixelColor color, g3)))"

text \<open>The sample loop (lines 176 to 194).\<close>

function sample_loop ::
  "('o, 'm, 'g) RenderContext \<Rightarrow> Vec2i \<Rightarrow> int \<Rightarrow> Vec3f \<times> 'g \<Rightarrow> error + (Vec3f \<times> 'g)" where
  "sample_loop ctx pixelCoord sampleIndex st =
     (if sampleIndex < samplesPerPixel ctx
      then (case sample ctx pixelCoord st of
              Inl e \<Rightarrow> Inl e
            | Inr st' \<Rightarrow> sample_loop ctx pixelCoord (sampleIndex + 1) st')
      else Inr st)"
  by pat_completeness auto
termination
  by (relation "measure (\<lambda>(ctx, pixelCoord, sampleIndex, st). nat (samplesPerPixel ctx - sampleIndex))") auto

declare sample_loop.simps [simp del]

text \<open>
  The body of the pixel loop (lines 174 to 208). The running sum is default-constructed
  (modelled from the spec: it starts at zero).
\<close>

definition shade_pixel ::
  "('o, 'm, 'g) RenderContext \<Rightarrow> Vec2i \<Rightarrow> ImageBuffer \<times> 'g \<Rightarrow> error + (ImageBuffer \<times> 'g)" where
  "shade_pixel ctx pixelCoord st =
     (let (img, g) = st
      in case sample_loop ctx pixelCoord 0 (Vec3f 0 0 0, g) of
           Inl e \<Rightarrow> Inl e
         | Inr (pixelColor, g') \<Rightarrow>
             if samplesPerPixel ctx = 0 then Inl NonFinite
             else
               let pixelColor = Vec3f_div pixelColor (real_of_int (samplesPerPixel ctx))
               in if X pixelColor < 0 \<or> Y pixelColor < 0 \<or> Z pixelColor < 0 then Inl NonFinite
                  else
                    let pixelColor = Vec3f (sqrt (X pixelColor)) (sqrt (Y pixelColor)) (sqrt (Z pixelColor));
                        pixelColor = Clamp pixelColor c_normalizedRange
                    in (case ImageBuffer_write img (X2 pixelCoord) (Y2 pixelCoord) pixelColor of
                          Inl e \<Rightarrow> Inl e
                        | Inr img' \<Rightarrow> Inr (img', g')))"

text \<open>The pixel loop (lines 172 to 209): the range-based \<open>for\<close> statement with its body.\<close>

partial_function (option) pixel_loop ::
  "('o, 'm, 'g) RenderContext \<Rightarrow> iterator \<Rightarrow> iterator \<Rightarrow> ImageBuffer \<times> 'g
   \<Rightarrow> (error + (ImageBuffer \<times> 'g)) option" where
  "pixel_loop ctx it i_end st =
     (if not_equal it i_end
      then (case shade_pixel ctx (deref it) st of
              Inl e \<Rightarrow> Some (Inl e)
            | Inr st' \<Rightarrow> pixel_loop ctx (increment it) i_end st')
      else Some (Inr st))"

text \<open>
  The scene of \<open>main\<close> is built from spheres with Lambert and metal materials; their
  classes are not among the sources, so they are data here and their behaviour is in
  the \<open>Hit\<close> and \<open>Scatter\<close> parameters.
\<close>

datatype SurfaceMaterial = Lambert Vec3f | Metal Vec3f float

datatype Sphere = Sphere Vec3f float SurfaceMaterial

text \<open>
  The command line options that \<open>main\<close> registers (lines 111 to 121): the short and
  the long name, the description and the default value.
\<close>

record CommandLineOption =
  opt_names :: string
  opt_description :: string
  opt_default :: "string option"

definition main_options :: "CommandLineOption list" where
  "main_options =
     [\<lparr>opt_names = ''w,width'', opt_description = ''Width of the image.'', opt_default = Some ''384''\<rparr>,
      \<lparr>opt_names = ''h,height'', opt_description = ''Height of the image.'', opt_default = Some ''256''\<rparr>,
      \<lparr>opt_names = ''o,output'', opt_description = ''Output file'', opt_default = Some ''out.ppm''\<rparr>,
      \<lparr>opt_names = ''s,samplesPerPixel'', opt_description = ''Number of samples per-pixel.'',
        opt_default = Some ''100''\<rparr>,
      \<lparr>opt_names = ''b,rayBounceLimit'',
        opt_description = ''Number of bounces possible for a ray until termination.'',
        opt_default = Some ''50''\<rparr>]"

definition long_flag :: "CommandLineOption \<Rightarrow> string" where
  "long_flag opt = ''--'' @ drop 1 (dropWhile (\<lambda>c. c \<noteq> CHR '','') (opt_names opt))"

text \<open>
  The collaborators of \<open>main\<close>: the parser of the command line (the \<open>cxxopts\<close>
  library, which may throw), the scene object and material behaviour, the random
  source, the camera constructor (which receives the aspect ratio, or nothing when the
  ratio is not finite) and \<open>raytrace::WritePPMImage\<close>.
\<close>

record Arguments =
  arg_width :: int
  arg_height :: int
  arg_samplesPerPixel :: int
  arg_rayBounceLimit :: int
  arg_output :: string

record 'g Environment =
  env_parse :: "CommandLineOption list \<Rightarrow> string list \<Rightarrow> error + Arguments"
  env_hit :: "(Sphere, SurfaceMaterial) hit_fn"
  env_scatter :: "(SurfaceMaterial, 'g) scatter_fn"
  env_record :: "SurfaceMaterial HitRecord"
  env_stack :: nat
  env_random :: "FloatRange \<Rightarrow> 'g \<Rightarrow> float \<times> 'g"
  env_camera :: "float option \<Rightarrow> Camera"
  env_write :: "ImageBuffer \<Rightarrow> string \<Rightarrow> bool"

text \<open>\<open>main\<close> (lines 105 to 221): setting up, rendering, writing the image.\<close>

definition render_context :: "'g Environment \<Rightarrow> Arguments \<Rightarrow> (Sphere, SurfaceMaterial, 'g) RenderContext" where
  "render_context env args =
     \<lparr>ctx_hit = env_hit env, ctx_scatter = env_scatter env, ctx_record = env_record env,
      ctx_stack = env_stack env, ctx_random = env_random env,
      camera = env_camera env
                 (if arg_height args = 0 then None
                  else Some (real_of_int (arg_width args) / real_of_int (arg_height args))),
      imageWidth = arg_width args, imageHeight = arg_height args,
      samplesPerPixel = arg_samplesPerPixel args,
      rayBounceLimit = arg_rayBounceLimit args,
      sceneObjectPtrs =
        [Sphere (Vec3f 0 0 (- 1)) 0.5 (Lambert (Vec3f 0.7 0.3 0.3)),
         Sphere (Vec3f 0 (- 100.5) (- 1)) 100 (Lambert (Vec3f 0.8 0.8 0)),
         Sphere (Vec3f 1 0 (- 1)) 0.5 (Metal (Vec3f 0.8 0.6 0.2) 1),
         Sphere (Vec3f (- 1) 0 (- 1)) 0.5 (Metal (Vec3f 0.8 0.8 0.8) 0.3)]\<rparr>"

definition render :: "'g Environment \<Rightarrow> Arguments \<Rightarrow> 'g \<Rightarrow> (error + (ImageBuffer \<times> 'g)) option" where
  "render env args g =
     (let img = ImageBuffer_new (arg_width args) (arg_height args);
          ctx = render_context env args
      in pixel_loop ctx (Vec2iRange_begin (Extent img)) (Vec2iRange_end (Extent img)) (img, g))"

definition main :: "'g Environment \<Rightarrow> string list \<Rightarrow> 'g \<Rightarrow> (error + int) option" where
  "main env argv g =
     (case env_parse env main_options argv of
        Inl e \<Rightarrow> Some (Inl e)
      | Inr args \<Rightarrow>
          (case render env args g of
             None \<Rightarrow> None
           | Some (Inl e) \<Rightarrow> Some (Inl e)
           | Some (Inr (img, g')) \<Rightarrow>
               if \<not> env_write env img (arg_output args) then Some (Inr (- 1)) else Some (Inr 0)))"

section \<open>The per-pixel computation as specified\<close>

text \<open>
  The per-pixel computation in the words of the spec. A sample draws an offset for each
  axis from the random source over \<open>[0,1]\<close>, adds it to the pixel coordinate, maps the
  result to viewport coordinates, and sends the camera ray through that point with a
  normalised direction; \<open>integrator_samples\<close> collects the offsets and the integrator's
  result of \<open>k\<close> successive samples. \<open>tone_map\<close> averages, takes the square root of
  each channel and clamps each channel to \<open>[0,1]\<close>.
\<close>

definition jittered_ray :: "('o, 'm, 'g) RenderContext \<Rightarrow> Vec2i \<Rightarrow> float \<Rightarrow> float \<Rightarrow> Ray" where
  "jittered_ray ctx pixelCoord a b =
     (let u = (real_of_int (X2 pixelCoord) + a) / real_of_int (imageWidth ctx);
          v = (real_of_int (Y2 pixelCoord) + b) / real_of_int (imageHeight ctx);
          target = Vec3f_add (Vec3f_add (ViewportBottomLeft (camera ctx))
                      (Vec3f_scale u (ViewportHorizontal (camera ctx))))
                      (Vec3f_scale v (ViewportVertical (camera ctx)))
      in Ray (CameraOrigin (camera ctx)) (Normalize (Vec3f_sub target (CameraOrigin (camera ctx)))))"

definition degenerate :: "('o, 'm, 'g) RenderContext \<Rightarrow> Vec2i \<Rightarrow> float \<Rightarrow> float \<Rightarrow> bool" where
  "degenerate ctx pixelCoord a b \<longleftrightarrow>
     imageWidth ctx = 0 \<or> imageHeight ctx = 0
     \<or> Length (Vec3f_sub
           (Vec3f_add (Vec3f_add (ViewportBottomLeft (camera ctx))
              (Vec3f_scale ((real_of_int (X2 pixelCoord) + a) / real_of_int (imageWidth ctx))
                 (ViewportHorizontal (camera ctx))))
              (Vec3f_scale ((real_of_int (Y2 pixelCoord) + b) / real_of_int (imageHeight ctx))
                 (ViewportVertical (camera ctx))))
           (CameraOrigin (camera ctx))) = 0"

fun integrator_samples ::
  "('o, 'm, 'g) RenderContext \<Rightarrow> Vec2i \<Rightarrow> nat \<Rightarrow> 'g \<Rightarrow> error + (((float \<times> float) \<times> Vec3f) list \<times> 'g)" where
  "integrator_samples ctx pixelCoord 0 g = Inr ([], g)"
| "integrator_samples ctx pixelCoord (Suc k) g =
     (let (a, g1) = ctx_random ctx (FloatRange 0 1) g;
          (b, g2) = ctx_random ctx (FloatRange 0 1) g1
      in if degenerate ctx pixelCoord a b then Inl NonFinite
         else
           (case ComputeRayColor (ctx_hit ctx) (ctx_scatter ctx) (ctx_record ctx) (ctx_stack ctx)
                   (jittered_ray ctx pixelCoord a b) (rayBounceLimit ctx) (sceneObjectPtrs ctx) g2 of
              Inl e \<Rightarrow> Inl e
            | Inr (color, g3) \<Rightarrow>
                (case integrator_samples ctx pixelCoord k g3 of
                   Inl e \<Rightarrow> Inl e
                 | Inr (rest, g') \<Rightarrow> Inr (((a, b), color) # rest, g'))))"



text \<open>The body of the pixel loop applied to a list of pixels in turn.\<close>

fun shade_pixels ::
  "('o, 'm, 'g) RenderContext \<Rightarrow> Vec2i list \<Rightarrow> ImageBuffer \<times> 'g \<Rightarrow> error + (ImageBuffer \<times> 'g)" where
  "shade_pixels ctx [] st = Inr st"
| "shade_pixels ctx (pixelCoord # rest) st =
     (case shade_pixel ctx pixelCoord st of
        Inl e \<Rightarrow> Inl e
      | Inr st' \<Rightarrow> shade_pixels ctx rest st')"

text \<open>
  Collaborators for a concrete run: a random source that returns the midpoint of the
  range, a camera looking down the negative \<open>z\<close> axis, a scene with nothing to hit.
\<close>

definition midpoint_random :: "FloatRange \<Rightarrow> nat \<Rightarrow> float \<times> nat" where
  "midpoint_random rg g = ((Min_r rg + Max_r rg) / 2, Suc g)"

definition camera_example :: Camera where
  "camera_example = Camera (Vec3f 0 0 0) (Vec3f (- 1) (- 1) (- 1)) (Vec3f 2 0 0) (Vec3f 0 2 0)"


definition environment_example :: "nat Environment" where
  "environment_example =
     \<lparr>env_parse = (\<lambda>options argv.
         if argv = [''--width'', ''1'', ''--height'', ''1'', ''--samplesPerPixel'', ''1'']
         then Inr \<lparr>arg_width = 1, arg_height = 1, arg_samplesPerPixel = 1,
                   arg_rayBounceLimit = 50, arg_output = ''out.ppm''\<rparr>
         else Inl ParseException),
      env_hit = (\<lambda>obj i_ray rg rec. (False, rec)),
      env_scatter = (\<lambda>material i_ray rec g. ((False, Vec3f 0 0 0, i_ray), g)),
      env_record = \<lparr>m_position = Vec3f 0 0 0, m_normal = Vec3f 0 0 0, m_magnitude = 0,
                     m_material = None\<rparr>,
      env_stack = 51,
      env_random = midpoint_random,
      env_camera = (\<lambda>aspect. camera_example),
      env_write = (\<lambda>img path. path = ''out.ppm'')\<rparr>"

section \<open>Bounce termination\<close>

text \<open>
  C1. With a bounce budget of exactly 0, \<open>ComputeRayColor\<close> returns black \<open>(0,0,0)\<close>
  for every ray, every scene, every pair of collaborators and every state of the random
  generator (which it leaves as it was).
\<close>

theorem ComputeRayColor_zero_bounces:
  "ComputeRayColor hit scatter rec0 (Suc depth) i_ray 0 i_sceneObjectPtrs g = Inr (Vec3f 0 0 0, g)"
  by simp

section \<open>Evaluation of the example scenes\<close>

lemma scan_empty:
  "scan hit i_ray rec0 [] = scan_init rec0"
  by (simp add: scan_def)

lemma scan_step_plane_hit:
  assumes "Z (Direction r) \<noteq> 0"
    and "1 / 1000 < (c - Z (Origin r)) / Z (Direction r)"
    and "(c - Z (Origin r)) / Z (Direction r) < nearestHitMagnitude s"
  shows "scan_step Hit_plane r (Plane c m) s =
     \<lparr>hitRecord = \<lparr>m_position = RayPosition r ((c - Z (Origin r)) / Z (Direction r)),
                   m_normal = Vec3f 0 0 (if Z (Direction r) < 0 then 1 else - 1),
                   m_magnitude = (c - Z (Origin r)) / Z (Direction r),
                   m_material = Some m\<rparr>,
      objectHit = True,
      nearestHitMagnitude = (c - Z (Origin r)) / Z (Direction r)\<rparr>"
  using assms
  by (simp add: scan_step_def magnitudeRange_def Hit_plane_def Hit_nearest_def nearest_root_def
      plane_roots_def plane_normal_def)

lemma scan_step_plane_miss:
  assumes "Z (Direction r) = 0 \<or> (c - Z (Origin r)) / Z (Direction r) \<le> 1 / 1000
      \<or> nearestHitMagnitude s \<le> (c - Z (Origin r)) / Z (Direction r)"
  shows "scan_step Hit_plane r (Plane c m) s = s"
  using assms
  by (auto simp add: scan_step_def magnitudeRange_def Hit_plane_def Hit_nearest_def nearest_root_def
      plane_roots_def)

section \<open>The terminal paths\<close>

text \<open>
  C6. When the material of the nearest hit reports that the ray was absorbed,
  \<open>ComputeRayColor\<close> returns black at once: one activation is enough, so no recursive
  call is made. Each of the three terminal paths (absorption, escape to the background,
  exhausted bounce budget) yields a colour and none of the error values.
\<close>

theorem ComputeRayColor_terminal_paths:
  fixes hit :: "('o, 'm) hit_fn" and scatter :: "('m, 'g) scatter_fn"
  assumes "s = scan hit i_ray rec0 i_sceneObjectPtrs"
  shows "(i_numRayBounces \<noteq> 0 \<and> objectHit s \<and> m_material (hitRecord s) = Some material
          \<and> \<not> fst (fst (scatter material i_ray (hitRecord s) g))
          \<longrightarrow> ComputeRayColor hit scatter rec0 (Suc 0) i_ray i_numRayBounces i_sceneObjectPtrs g
              = Inr (Vec3f 0 0 0, snd (scatter material i_ray (hitRecord s) g)))
       \<and> (i_numRayBounces \<noteq> 0 \<and> \<not> objectHit s
          \<longrightarrow> (\<exists>color. ComputeRayColor hit scatter rec0 (Suc 0) i_ray i_numRayBounces i_sceneObjectPtrs g
              = Inr (color, g)))
       \<and> (i_numRayBounces = 0
          \<longrightarrow> ComputeRayColor hit scatter rec0 (Suc 0) i_ray i_numRayBounces i_sceneObjectPtrs g
              = Inr (Vec3f 0 0 0, g))"
  using assms by (auto simp add: Let_def split: prod.splits)

theorem ComputeRayColor_terminal_paths_witness:
  "ComputeRayColor Hit_plane Scatter_example record_default (Suc 0)
     (Ray (Vec3f 0 0 0) (Vec3f 0 0 (- 1))) 5 [Plane (- 1) Black] 0 = Inr (Vec3f 0 0 0, Suc 0)"
proof -
  let ?r = "Ray (Vec3f 0 0 0) (Vec3f 0 0 (- 1))"
  have s: "scan Hit_plane ?r record_default [Plane (- 1) Black] =
      \<lparr>hitRecord = \<lparr>m_position = Vec3f 0 0 (- 1), m_normal = Vec3f 0 0 1,
                    m_magnitude = 1, m_material = Some Black\<rparr>,
       objectHit = True, nearestHitMagnitude = 1\<rparr>"
    by (simp add: scan_def scan_init_def scan_step_plane_hit FLT_MAX_def RayPosition_def)
  show ?thesis
    using ComputeRayColor_terminal_paths [of _ Hit_plane ?r record_default "[Plane (- 1) Black]"
        5 Black Scatter_example 0, OF refl]
    by (simp add: s)
qed

section \<open>Attenuation by componentwise product\<close>

lemma unit_product_le:
  fixes a c :: real
  assumes "0 \<le> a" "a \<le> 1" "0 \<le> c" "c \<le> 1"
  shows "a * c \<le> a" and "a * c \<le> c"
  using assms by (simp_all add: mult_left_le mult_left_le_one_le)

text \<open>
  C2. When the scan finds a hit and the hit material scatters, \<open>ComputeRayColor\<close> at
  budget \<open>n\<close> returns the componentwise product of the attenuation and the colour that
  \<open>ComputeRayColor\<close> returns for the scattered ray at budget \<open>n - 1\<close>. If every
  channel of the attenuation and of the recursive colour lies in \<open>[0,1]\<close>, every channel
  of the result is at most the same channel of either operand.
\<close>

theorem ComputeRayColor_scatter_product:
  fixes hit :: "('o, 'm) hit_fn" and scatter :: "('m, 'g) scatter_fn"
  assumes "i_numRayBounces \<noteq> 0" and "INT_MIN < i_numRayBounces"
    and "s = scan hit i_ray rec0 i_sceneObjectPtrs"
    and "objectHit s" and "m_material (hitRecord s) = Some material"
    and "scatter material i_ray (hitRecord s) g = ((True, attenuation, scatteredRay), g')"
    and "ComputeRayColor hit scatter rec0 depth scatteredRay (i_numRayBounces - 1) i_sceneObjectPtrs g'
         = Inr (descendentColor, g'')"
  shows "ComputeRayColor hit scatter rec0 (Suc depth) i_ray i_numRayBounces i_sceneObjectPtrs g
         = Inr (Vec3f (X attenuation * X descendentColor)
                      (Y attenuation * Y descendentColor)
                      (Z attenuation * Z descendentColor), g'')
       \<and> (unit_interval attenuation \<and> unit_interval descendentColor \<longrightarrow>
            (\<exists>color. ComputeRayColor hit scatter rec0 (Suc depth) i_ray i_numRayBounces i_sceneObjectPtrs g
                 = Inr (color, g'')
               \<and> X color \<le> X attenuation \<and> X color \<le> X descendentColor
               \<and> Y color \<le> Y attenuation \<and> Y color \<le> Y descendentColor
               \<and> Z color \<le> Z attenuation \<and> Z color \<le> Z descendentColor))"
proof -
  have eq: "ComputeRayColor hit scatter rec0 (Suc depth) i_ray i_numRayBounces i_sceneObjectPtrs g
         = Inr (Vec3f (X attenuation * X descendentColor)
                      (Y attenuation * Y descendentColor)
                      (Z attenuation * Z descendentColor), g'')"
    using assms by (simp add: Let_def)
  show ?thesis
    unfolding eq by (auto simp add: unit_interval_def unit_product_le)
qed

theorem ComputeRayColor_scatter_product_witness:
  "ComputeRayColor Hit_plane Scatter_example record_default (Suc (Suc 0))
     (Ray (Vec3f 0 0 0) (Vec3f 0 0 (- 1))) 2 [Plane (- 1) (Diffuse gray)] 0
   = Inr (Vec3f (1 / 4) (7 / 20) (1 / 2), Suc 0)"
proof -
  let ?r = "Ray (Vec3f 0 0 0) (Vec3f 0 0 (- 1))"
  let ?r' = "Ray (Vec3f 0 0 (- 1)) (Vec3f 0 0 1)"
  let ?scene = "[Plane (- 1) (Diffuse gray)]"
  let ?rec = "\<lparr>m_position = Vec3f 0 0 (- 1), m_normal = Vec3f 0 0 1,
                m_magnitude = 1, m_material = Some (Diffuse gray)\<rparr>"
  let ?s = "\<lparr>hitRecord = ?rec, objectHit = True, nearestHitMagnitude = 1\<rparr>"
  have s: "?s = scan Hit_plane ?r record_default ?scene"
    by (simp add: scan_def scan_init_def scan_step_plane_hit FLT_MAX_def RayPosition_def)
  have s': "scan Hit_plane ?r' record_default ?scene = scan_init record_default"
    by (simp add: scan_def scan_step_plane_miss)
  have rec: "ComputeRayColor Hit_plane Scatter_example record_default (Suc 0) ?r' (2 - 1) ?scene (Suc 0)
      = Inr (Vec3f (1 / 2) (7 / 10) 1, Suc 0)"
    by (simp add: s' scan_init_def LinearInterpolation_def)
  have sc: "Scatter_example (Diffuse gray) ?r (hitRecord ?s) 0 = ((True, gray, ?r'), Suc 0)"
    by simp
  have "unit_interval gray \<and> unit_interval (Vec3f (1 / 2) (7 / 10) 1)"
    by (simp add: unit_interval_def gray_def)
  then show ?thesis
    using ComputeRayColor_scatter_product [OF _ _ s _ _ sc rec]
    by (simp add: INT_MIN_def gray_def)
qed

section \<open>Background gradient\<close>

text \<open>
  C3 (as amended). For every ray that hits no scene object, at every non-zero bounce
  budget, \<open>ComputeRayColor\<close> returns the linear interpolation between white \<open>(1,1,1)\<close>
  and sky-blue \<open>(0.5,0.7,1.0)\<close> at the weight \<open>0.5 * d.y + 1.0\<close>, where \<open>d\<close> is the
  direction of the ray as it was passed in: the function does not normalise it. The
  weight is not clamped. Where the direction has unit length, \<open>d\<close> is the normalised
  direction.
\<close>

theorem ComputeRayColor_background:
  fixes hit :: "('o, 'm) hit_fn" and scatter :: "('m, 'g) scatter_fn"
  assumes "i_numRayBounces \<noteq> 0"
    and "\<not> objectHit (scan hit i_ray rec0 i_sceneObjectPtrs)"
  shows "ComputeRayColor hit scatter rec0 (Suc depth) i_ray i_numRayBounces i_sceneObjectPtrs g
         = Inr (LinearInterpolation (Vec3f 1 1 1) (Vec3f 0.5 0.7 1.0)
                  (0.5 * Y (Direction i_ray) + 1.0), g)
       \<and> (Length (Direction i_ray) = 1 \<longrightarrow>
            ComputeRayColor hit scatter rec0 (Suc depth) i_ray i_numRayBounces i_sceneObjectPtrs g
            = Inr (LinearInterpolation (Vec3f 1 1 1) (Vec3f 0.5 0.7 1.0)
                     (0.5 * Y (Normalize (Direction i_ray)) + 1.0), g))"
  using assms by (simp add: Let_def Normalize_def)

theorem ComputeRayColor_background_witness:
  "ComputeRayColor Hit_plane Scatter_example record_default (Suc 0)
     (Ray (Vec3f 0 0 0) (Vec3f 0 1 0)) 1 [] 0
   = Inr (LinearInterpolation (Vec3f 1 1 1) (Vec3f 0.5 0.7 1.0) 1.5, 0)
   \<and> LinearInterpolation (Vec3f 1 1 1) (Vec3f 0.5 0.7 1.0) 1.5 = Vec3f 0.25 0.55 1"
  using ComputeRayColor_background [of 1 Hit_plane "Ray (Vec3f 0 0 0) (Vec3f 0 1 0)"
      record_default "[]" Scatter_example 0 0]
  by (simp add: scan_empty scan_init_def Length_def LinearInterpolation_def)

text \<open>
  The claim as written takes the weight from the normalised direction. At the direction
  \<open>(0,2,0)\<close>, whose normalised direction is \<open>(0,1,0)\<close>, the claim's weight is \<open>1.5\<close>
  and its colour \<open>(0.25,0.55,1)\<close>; the function uses the weight \<open>2\<close> and returns
  \<open>(0,0.4,1)\<close>.
\<close>

theorem ComputeRayColor_background_counterexample:
  "\<not> objectHit (scan Hit_plane (Ray (Vec3f 0 0 0) (Vec3f 0 2 0)) record_default [])
   \<and> Normalize (Direction (Ray (Vec3f 0 0 0) (Vec3f 0 2 0))) = Vec3f 0 1 0
   \<and> LinearInterpolation (Vec3f 1 1 1) (Vec3f 0.5 0.7 1.0)
        (0.5 * Y (Normalize (Direction (Ray (Vec3f 0 0 0) (Vec3f 0 2 0)))) + 1.0) = Vec3f 0.25 0.55 1
   \<and> ComputeRayColor Hit_plane Scatter_example record_default (Suc 0)
        (Ray (Vec3f 0 0 0) (Vec3f 0 2 0)) 1 [] 0 = Inr (Vec3f 0 0.4 1, 0)
   \<and> ComputeRayColor Hit_plane Scatter_example record_default (Suc 0)
        (Ray (Vec3f 0 0 0) (Vec3f 0 2 0)) 1 [] 0
     \<noteq> Inr (LinearInterpolation (Vec3f 1 1 1) (Vec3f 0.5 0.7 1.0)
            (0.5 * Y (Normalize (Direction (Ray (Vec3f 0 0 0) (Vec3f 0 2 0)))) + 1.0), 0)"
proof -
  have len: "Length (Vec3f 0 2 0) = 2"
    by (simp add: Length_def)
  show ?thesis
    by (simp add: scan_empty scan_init_def Normalize_def len LinearInterpolation_def)
qed

section \<open>Termination within the bounce budget\<close>

lemma scan_step_material:
  assumes "Hit_contract hit"
    and "objectHit s \<longrightarrow> m_material (hitRecord s) \<noteq> None"
  shows "objectHit (scan_step hit i_ray obj s) \<longrightarrow> m_material (hitRecord (scan_step hit i_ray obj s)) \<noteq> None"
proof -
  obtain b rec' where h: "hit obj i_ray (magnitudeRange s) (hitRecord s) = (b, rec')"
    by (cases "hit obj i_ray (magnitudeRange s) (hitRecord s)")
  from assms(1) have "(b \<longrightarrow> m_material rec' \<noteq> None) \<and> (\<not> b \<longrightarrow> rec' = hitRecord s)"
    unfolding Hit_contract_def by (metis h fst_conv snd_conv)
  with assms(2) h show ?thesis
    by (auto simp add: scan_step_def)
qed

lemma fold_scan_step_material:
  assumes "Hit_contract hit"
    and "objectHit s \<longrightarrow> m_material (hitRecord s) \<noteq> None"
  shows "objectHit (fold (scan_step hit i_ray) objs s)
     \<longrightarrow> m_material (hitRecord (fold (scan_step hit i_ray) objs s)) \<noteq> None"
  using assms(2)
proof (induction objs arbitrary: s)
  case Nil
  then show ?case by simp
next
  case (Cons obj objs)
  show ?case
    using Cons.IH [OF scan_step_material [OF assms(1) Cons.prems]] by simp
qed

lemma scan_material:
  assumes "Hit_contract hit" and "objectHit (scan hit i_ray rec0 objs)"
  shows "\<exists>material. m_material (hitRecord (scan hit i_ray rec0 objs)) = Some material"
  using fold_scan_step_material [OF assms(1), of "scan_init rec0" i_ray objs] assms(2)
  by (simp add: scan_def scan_init_def)

lemma ComputeRayColor_within_budget:
  fixes hit :: "('o, 'm) hit_fn" and scatter :: "('m, 'g) scatter_fn"
  assumes "0 \<le> n" and "n < int depth"
  shows "(\<exists>color g'. ComputeRayColor hit scatter rec0 depth i_ray n objs g = Inr (color, g'))
       \<or> ComputeRayColor hit scatter rec0 depth i_ray n objs g = Inl NullMaterial"
  using assms
proof (induction depth arbitrary: n i_ray g)
  case 0
  then show ?case by simp
next
  case (Suc depth)
  show ?case
  proof (cases "n = 0")
    case True
    then show ?thesis by simp
  next
    case False
    with Suc.prems have n: "0 \<le> n - 1" "n - 1 < int depth" "n \<noteq> INT_MIN"
      by (simp_all add: INT_MIN_def)
    have IH: "\<And>r h. (\<exists>color g'. ComputeRayColor hit scatter rec0 depth r (n - 1) objs h = Inr (color, g'))
        \<or> ComputeRayColor hit scatter rec0 depth r (n - 1) objs h = Inl NullMaterial"
      using Suc.IH [OF n(1) n(2)] by blast
    show ?thesis
    proof (cases "objectHit (scan hit i_ray rec0 objs)")
      case noHit: False
      with False show ?thesis by (simp add: Let_def)
    next
      case isHit: True
      show ?thesis
      proof (cases "m_material (hitRecord (scan hit i_ray rec0 objs))")
        case None
        with False isHit show ?thesis by (simp add: Let_def)
      next
        case (Some material)
        obtain scattered attenuation scatteredRay g' where
          sc: "scatter material i_ray (hitRecord (scan hit i_ray rec0 objs)) g
               = ((scattered, attenuation, scatteredRay), g')"
          by (metis prod.exhaust)
        show ?thesis
        proof (cases scattered)
          case True
          from IH [of scatteredRay g'] show ?thesis
            using False isHit Some sc True n(3) by (auto simp add: Let_def)
        next
          case notScattered: False
          with False isHit Some sc show ?thesis by (simp add: Let_def)
        qed
      qed
    qed
  qed
qed

lemma ComputeRayColor_no_null:
  fixes hit :: "('o, 'm) hit_fn" and scatter :: "('m, 'g) scatter_fn"
  assumes "Hit_contract hit"
  shows "ComputeRayColor hit scatter rec0 depth i_ray n objs g \<noteq> Inl NullMaterial"
proof (induction depth arbitrary: n i_ray g)
  case 0
  then show ?case by simp
next
  case (Suc depth)
  show ?case
  proof (cases "n \<noteq> 0 \<and> objectHit (scan hit i_ray rec0 objs)")
    case False
    then show ?thesis by (auto simp add: Let_def)
  next
    case True
    then obtain material where m: "m_material (hitRecord (scan hit i_ray rec0 objs)) = Some material"
      using scan_material [OF assms] by blast
    obtain scattered attenuation scatteredRay g' where
      sc: "scatter material i_ray (hitRecord (scan hit i_ray rec0 objs)) g
           = ((scattered, attenuation, scatteredRay), g')"
      by (metis prod.exhaust)
    show ?thesis
      using True m sc Suc.IH [of scatteredRay "n - 1" g']
      by (auto simp add: Let_def split: sum.splits)
  qed
qed

text \<open>
  C5 (as amended). For every ray, every scene and every bounce limit \<open>n \<ge> 0\<close>,
  \<open>ComputeRayColor\<close> comes to an end within \<open>n + 1\<close> nested activations (the call
  and at most \<open>n\<close> levels of recursion below it), whatever the scene objects and
  materials do: it neither runs out of activations nor overflows the budget. Where
  every \<open>Hit\<close> keeps its contract, what it returns is a colour.
\<close>

theorem ComputeRayColor_terminates:
  fixes hit :: "('o, 'm) hit_fn" and scatter :: "('m, 'g) scatter_fn"
  assumes "0 \<le> n"
  shows "ComputeRayColor hit scatter rec0 (Suc (nat n)) i_ray n objs g \<noteq> Inl StackExhausted
       \<and> ComputeRayColor hit scatter rec0 (Suc (nat n)) i_ray n objs g \<noteq> Inl SignedOverflow
       \<and> (Hit_contract hit \<longrightarrow>
            (\<exists>color g'. ComputeRayColor hit scatter rec0 (Suc (nat n)) i_ray n objs g = Inr (color, g')))"
proof -
  have "n < int (Suc (nat n))"
    using assms by simp
  from ComputeRayColor_within_budget [OF assms this, of hit scatter rec0 i_ray objs g]
  show ?thesis
    using ComputeRayColor_no_null [of hit scatter rec0 "Suc (nat n)" i_ray n objs g]
    by auto
qed

lemma fold_min_in:
  fixes t :: real
  shows "fold min ts t \<in> set (t # ts)"
proof (induction ts arbitrary: t)
  case Nil
  then show ?case by simp
next
  case (Cons a ts)
  from Cons.IH [of "min a t"] show ?case
    by (auto simp add: min_def split: if_splits)
qed

lemma fold_min_le:
  fixes t :: real
  assumes "u \<in> set (t # ts)"
  shows "fold min ts t \<le> u"
  using assms
proof (induction ts arbitrary: t u)
  case Nil
  then show ?case by simp
next
  case (Cons a ts)
  have "fold min ts (min a t) \<le> min a t"
    by (rule Cons.IH) simp
  moreover have "fold min ts (min a t) \<le> u" if "u \<in> set ts"
    by (rule Cons.IH) (simp add: that)
  ultimately show ?case
    using Cons.prems by auto
qed

lemma nearest_root_Some:
  assumes "nearest_root roots obj i_ray rg = Some tmin"
  shows "tmin \<in> set (roots obj i_ray) \<and> Min_r rg < tmin \<and> tmin < Max_r rg
       \<and> (\<forall>t\<in>set (roots obj i_ray). Min_r rg < t \<and> t < Max_r rg \<longrightarrow> tmin \<le> t)"
proof -
  let ?xs = "filter (\<lambda>t. Min_r rg < t \<and> t < Max_r rg) (roots obj i_ray)"
  from assms obtain t ts where xs: "?xs = t # ts" and tmin: "tmin = fold min ts t"
    by (auto simp add: nearest_root_def split: list.splits)
  have "tmin \<in> set ?xs"
    unfolding xs tmin by (rule fold_min_in)
  moreover have "tmin \<le> u" if "u \<in> set ?xs" for u
    using that unfolding xs tmin by (rule fold_min_le)
  ultimately show ?thesis by auto
qed


lemma Hit_nearest_contract:
  "Hit_contract (Hit_nearest roots normal_at material_of)"
  by (auto simp add: Hit_contract_def Hit_nearest_def split: option.splits dest: nearest_root_Some)

theorem ComputeRayColor_terminates_witness:
  "ComputeRayColor Hit_plane Scatter_example record_default (Suc (nat 2)) ray_up 2 corridor 0
     \<noteq> Inl StackExhausted
   \<and> ComputeRayColor Hit_plane Scatter_example record_default (Suc (nat 2)) ray_up 2 corridor 0
     \<noteq> Inl SignedOverflow
   \<and> (\<exists>color g'. ComputeRayColor Hit_plane Scatter_example record_default (Suc (nat 2))
        ray_up 2 corridor 0 = Inr (color, g'))"
proof -
  have "Hit_contract Hit_plane"
    unfolding Hit_plane_def by (rule Hit_nearest_contract)
  then show ?thesis
    using ComputeRayColor_terminates [of 2 Hit_plane Scatter_example record_default ray_up corridor 0]
    by simp
qed

text \<open>
  The claim as written covers every configured bounce limit; the limit is an \<open>int\<close>
  option and may be negative. In the corridor, where every ray hits a plane and is
  scattered, a budget of \<open>-1\<close> is counted down without ever meeting \<open>0\<close>: with
  2147483647 activations the call has not returned, and with one more the budget
  reaches the least \<open>int\<close> and \<open>i_numRayBounces - 1\<close> overflows.
\<close>

lemma corridor_scan_up:
  "scan Hit_plane ray_up rec0 corridor =
     \<lparr>hitRecord = \<lparr>m_position = Vec3f 0 0 1, m_normal = Vec3f 0 0 (- 1), m_magnitude = 2,
                   m_material = Some (Diffuse gray)\<rparr>,
      objectHit = True, nearestHitMagnitude = 2\<rparr>"
  by (simp add: scan_def corridor_def ray_up_def scan_init_def scan_step_plane_miss
      scan_step_plane_hit FLT_MAX_def RayPosition_def)

lemma corridor_scan_down:
  "scan Hit_plane ray_down rec0 corridor =
     \<lparr>hitRecord = \<lparr>m_position = Vec3f 0 0 (- 1), m_normal = Vec3f 0 0 1, m_magnitude = 2,
                   m_material = Some (Diffuse gray)\<rparr>,
      objectHit = True, nearestHitMagnitude = 2\<rparr>"
  by (simp add: scan_def corridor_def ray_down_def scan_init_def scan_step_plane_miss
      scan_step_plane_hit FLT_MAX_def RayPosition_def)

lemma corridor_negative_budget:
  assumes "n < 0" and "INT_MIN \<le> n" and "r = ray_up \<or> r = ray_down"
  shows "ComputeRayColor Hit_plane Scatter_example rec0 depth r n corridor g =
     (if int depth \<le> n - INT_MIN then Inl StackExhausted else Inl SignedOverflow)"
  using assms
proof (induction depth arbitrary: n r g)
  case 0
  then show ?case by simp
next
  case (Suc depth)
  show ?case
  proof (cases "n = INT_MIN")
    case True
    with Suc.prems show ?thesis
      by (auto simp add: corridor_scan_up corridor_scan_down)
  next
    case False
    with Suc.prems have n: "n - 1 < 0" "INT_MIN \<le> n - 1" "n \<noteq> 0"
      by simp_all
    have up: "ComputeRayColor Hit_plane Scatter_example rec0 depth ray_up (n - 1) corridor h =
        (if int depth \<le> n - 1 - INT_MIN then Inl StackExhausted else Inl SignedOverflow)" for h
      by (rule Suc.IH [OF n(1) n(2)]) simp
    have down: "ComputeRayColor Hit_plane Scatter_example rec0 depth ray_down (n - 1) corridor h =
        (if int depth \<le> n - 1 - INT_MIN then Inl StackExhausted else Inl SignedOverflow)" for h
      by (rule Suc.IH [OF n(1) n(2)]) simp
    from Suc.prems(3) show ?thesis
    proof
      assume "r = ray_up"
      then show ?thesis
        using False n(3) down
        by (simp add: corridor_scan_up ray_down_def [symmetric])
    next
      assume "r = ray_down"
      then show ?thesis
        using False n(3) up
        by (simp add: corridor_scan_down ray_up_def [symmetric])
    qed
  qed
qed

theorem ComputeRayColor_negative_budget_counterexample:
  "ComputeRayColor Hit_plane Scatter_example record_default 2147483647 ray_up (- 1) corridor 0
     = Inl StackExhausted
   \<and> ComputeRayColor Hit_plane Scatter_example record_default 2147483648 ray_up (- 1) corridor 0
     = Inl SignedOverflow"
  by (simp add: corridor_negative_budget INT_MIN_def)

section \<open>Nearest hit and the order of the scene\<close>


lemma hit_calls_take:
  "hit_calls hit i_ray s (take k objs) = take k (hit_calls hit i_ray s objs)"
proof (induction objs arbitrary: s k)
  case Nil
  then show ?case by simp
next
  case (Cons obj objs)
  then show ?case by (cases k) simp_all
qed
















section \<open>Iteration over a Vec2iRange\<close>

lemma range_for_row:
  assumes "x < X2 hi"
    and "range_for (increment (iterator (Vec2i (X2 hi - 1) y) lo hi)) e = Some rest"
    and "m_currentValue e = hi"
  shows "range_for (iterator (Vec2i x y) lo hi) e = Some (map (\<lambda>x'. Vec2i x' y) [x..X2 hi - 1] @ rest)"
  using assms(1)
proof (induction k \<equiv> "nat (X2 hi - 1 - x)" arbitrary: x)
  case 0
  then have x: "x = X2 hi - 1" by simp
  have ne: "not_equal (iterator (Vec2i x y) lo hi) e"
    using assms(3) x by (cases hi) (auto simp add: not_equal_def)
  show ?case
    by (subst range_for.simps) (simp add: ne assms(2) [folded x] deref_def x [symmetric])
next
  case (Suc k)
  then have x: "x + 1 < X2 hi" by simp
  have ne: "not_equal (iterator (Vec2i x y) lo hi) e"
    using assms(3) x by (cases hi) (auto simp add: not_equal_def)
  have inc: "increment (iterator (Vec2i x y) lo hi) = iterator (Vec2i (x + 1) y) lo hi"
    using x by (simp add: increment_def)
  have "k = nat (X2 hi - 1 - (x + 1))" using Suc.hyps(2) by simp
  from Suc.hyps(1) [OF this] x
  have "range_for (iterator (Vec2i (x + 1) y) lo hi) e
      = Some (map (\<lambda>x'. Vec2i x' y) [x + 1..X2 hi - 1] @ rest)"
    by simp
  moreover have "[x..X2 hi - 1] = x # [x + 1..X2 hi - 1]"
    using x by (simp add: upto_rec1)
  ultimately show ?case
    by (subst range_for.simps) (simp add: ne inc deref_def)
qed

lemma range_for_rows:
  assumes "X2 lo < X2 hi" and "y < Y2 hi" and "m_currentValue e = hi"
  shows "range_for (iterator (Vec2i (X2 lo) y) lo hi) e
       = Some (concat (map (\<lambda>y'. map (\<lambda>x. Vec2i x y') [X2 lo..X2 hi - 1]) [y..Y2 hi - 1]))"
  using assms(2)
proof (induction k \<equiv> "nat (Y2 hi - 1 - y)" arbitrary: y)
  case 0
  then have y: "y = Y2 hi - 1" by simp
  have "increment (iterator (Vec2i (X2 hi - 1) y) lo hi) = iterator hi lo hi"
    using y by (simp add: increment_def)
  moreover have "range_for (iterator hi lo hi) e = Some []"
    using assms(3) by (subst range_for.simps) (simp add: not_equal_def)
  ultimately have "range_for (increment (iterator (Vec2i (X2 hi - 1) y) lo hi)) e = Some []"
    by simp
  from range_for_row [OF assms(1) this assms(3)] show ?case
    using y by simp
next
  case (Suc k)
  then have y: "y + 1 < Y2 hi" by simp
  have "k = nat (Y2 hi - 1 - (y + 1))" using Suc.hyps(2) by simp
  from Suc.hyps(1) [OF this] y
  have "range_for (iterator (Vec2i (X2 lo) (y + 1)) lo hi) e
      = Some (concat (map (\<lambda>y'. map (\<lambda>x. Vec2i x y') [X2 lo..X2 hi - 1]) [y + 1..Y2 hi - 1]))"
    by simp
  moreover have "increment (iterator (Vec2i (X2 hi - 1) y) lo hi) = iterator (Vec2i (X2 lo) (y + 1)) lo hi"
    using y by (simp add: increment_def)
  ultimately have "range_for (increment (iterator (Vec2i (X2 hi - 1) y) lo hi)) e
      = Some (concat (map (\<lambda>y'. map (\<lambda>x. Vec2i x y') [X2 lo..X2 hi - 1]) [y + 1..Y2 hi - 1]))"
    by simp
  from range_for_row [OF assms(1) this assms(3)]
  show ?case
    using y by (simp add: upto_rec1 [of y])
qed

lemma range_for_funpow:
  assumes "range_for it e = Some xs"
  shows "(\<forall>k<length xs. not_equal ((increment ^^ k) it) e \<and> deref ((increment ^^ k) it) = xs ! k)
       \<and> \<not> not_equal ((increment ^^ length xs) it) e"
  using assms
proof (induction xs arbitrary: it)
  case Nil
  then show ?case
    by (subst (asm) range_for.simps) (auto split: if_splits simp add: bind_eq_Some_conv)
next
  case (Cons a xs)
  from Cons.prems have ne: "not_equal it e" and a: "a = deref it"
    and rest: "range_for (increment it) e = Some xs"
    by (subst (asm) range_for.simps, auto split: if_splits simp add: bind_eq_Some_conv)+
  from Cons.IH [OF rest] show ?case
    using ne a by (auto simp add: funpow_swap1 less_Suc_eq_0_disj)
qed

lemma length_row_major:
  assumes "X2 lo < X2 hi" and "Y2 lo < Y2 hi"
  shows "length (row_major lo hi) = nat ((X2 hi - X2 lo) * (Y2 hi - Y2 lo))"
proof -
  have "length (row_major lo hi) = (\<Sum>y\<leftarrow>[Y2 lo..Y2 hi - 1]. nat (X2 hi - X2 lo))"
    using assms by (simp add: row_major_def length_concat comp_def)
  also have "\<dots> = nat (Y2 hi - Y2 lo) * nat (X2 hi - X2 lo)"
    using assms by (simp add: sum_list_triv)
  also have "\<dots> = nat ((X2 hi - X2 lo) * (Y2 hi - Y2 lo))"
    using assms by (simp add: nat_mult_distrib mult.commute)
  finally show ?thesis .
qed

lemma set_row_major:
  "set (row_major lo hi) = {Vec2i x y |x y. X2 lo \<le> x \<and> x < X2 hi \<and> Y2 lo \<le> y \<and> y < Y2 hi}"
  by (auto simp add: row_major_def)

lemma distinct_row_major:
  assumes "X2 lo < X2 hi"
  shows "distinct (row_major lo hi)"
  unfolding row_major_def
  using assms by (intro distinct_concat) (auto simp add: distinct_map inj_on_def)

lemma increment_bounds:
  "m_min ((increment ^^ k) it) = m_min it \<and> m_max ((increment ^^ k) it) = m_max it"
  by (induction k) (simp_all add: increment_def)

text \<open>
  C9. For every \<open>Vec2iRange\<close> whose minimum is strictly below its maximum in both
  components, the loop from \<open>begin()\<close> to \<open>end()\<close> terminates and visits exactly the
  pairs \<open>(x, y)\<close> with \<open>min.x \<le> x < max.x\<close> and \<open>min.y \<le> y < max.y\<close>, each once,
  in row-major order with \<open>x\<close> varying fastest; the iterator differs from \<open>end()\<close>
  before each of the first \<open>(max.x - min.x) * (max.y - min.y)\<close> increments and equals
  \<open>end()\<close> after exactly that many.
\<close>

theorem Vec2iRange_iteration:
  assumes "X2 (Min_v r) < X2 (Max_v r)" and "Y2 (Min_v r) < Y2 (Max_v r)"
  shows "range_for (Vec2iRange_begin r) (Vec2iRange_end r) = Some (row_major (Min_v r) (Max_v r))
       \<and> set (row_major (Min_v r) (Max_v r))
           = {Vec2i x y |x y. X2 (Min_v r) \<le> x \<and> x < X2 (Max_v r) \<and> Y2 (Min_v r) \<le> y \<and> y < Y2 (Max_v r)}
       \<and> distinct (row_major (Min_v r) (Max_v r))
       \<and> length (row_major (Min_v r) (Max_v r))
           = nat ((X2 (Max_v r) - X2 (Min_v r)) * (Y2 (Max_v r) - Y2 (Min_v r)))
       \<and> (\<forall>k<nat ((X2 (Max_v r) - X2 (Min_v r)) * (Y2 (Max_v r) - Y2 (Min_v r))).
            not_equal ((increment ^^ k) (Vec2iRange_begin r)) (Vec2iRange_end r)
            \<and> deref ((increment ^^ k) (Vec2iRange_begin r)) = row_major (Min_v r) (Max_v r) ! k)
       \<and> (increment ^^ nat ((X2 (Max_v r) - X2 (Min_v r)) * (Y2 (Max_v r) - Y2 (Min_v r))))
            (Vec2iRange_begin r) = Vec2iRange_end r"
proof -
  let ?lo = "Min_v r" and ?hi = "Max_v r"
  let ?n = "nat ((X2 ?hi - X2 ?lo) * (Y2 ?hi - Y2 ?lo))"
  have visit: "range_for (Vec2iRange_begin r) (Vec2iRange_end r) = Some (row_major ?lo ?hi)"
    using range_for_rows [OF assms(1) assms(2), of "Vec2iRange_end r"]
    by (simp add: Vec2iRange_begin_def Vec2iRange_end_def row_major_def)
  have len: "length (row_major ?lo ?hi) = ?n"
    by (rule length_row_major [OF assms])
  from range_for_funpow [OF visit]
  have steps: "\<forall>k<?n. not_equal ((increment ^^ k) (Vec2iRange_begin r)) (Vec2iRange_end r)
      \<and> deref ((increment ^^ k) (Vec2iRange_begin r)) = row_major ?lo ?hi ! k"
    and last: "\<not> not_equal ((increment ^^ ?n) (Vec2iRange_begin r)) (Vec2iRange_end r)"
    unfolding len by simp_all
  have "(increment ^^ ?n) (Vec2iRange_begin r) = Vec2iRange_end r"
    using last increment_bounds [of ?n "Vec2iRange_begin r"]
    by (cases "(increment ^^ ?n) (Vec2iRange_begin r)")
      (simp add: not_equal_def Vec2iRange_begin_def Vec2iRange_end_def)
  with visit len steps show ?thesis
    using set_row_major [of ?lo ?hi] distinct_row_major [OF assms(1)] by simp
qed

theorem Vec2iRange_iteration_witness:
  "range_for (Vec2iRange_begin (Vec2iRange (Vec2i 0 0) (Vec2i 3 2)))
     (Vec2iRange_end (Vec2iRange (Vec2i 0 0) (Vec2i 3 2)))
   = Some [Vec2i 0 0, Vec2i 1 0, Vec2i 2 0, Vec2i 0 1, Vec2i 1 1, Vec2i 2 1]
   \<and> (increment ^^ 6) (Vec2iRange_begin (Vec2iRange (Vec2i 0 0) (Vec2i 3 2)))
     = Vec2iRange_end (Vec2iRange (Vec2i 0 0) (Vec2i 3 2))"
proof -
  have rm: "row_major (Vec2i 0 0) (Vec2i 3 2)
      = [Vec2i 0 0, Vec2i 1 0, Vec2i 2 0, Vec2i 0 1, Vec2i 1 1, Vec2i 2 1]"
    by (simp add: row_major_def upto_rec1)
  from Vec2iRange_iteration [of "Vec2iRange (Vec2i 0 0) (Vec2i 3 2)"]
  show ?thesis
    by (simp add: rm)
qed

section \<open>Sampling and tone mapping of a pixel\<close>

lemma sample_eq:
  "sample ctx pixelCoord (acc, g) =
     (case integrator_samples ctx pixelCoord (Suc 0) g of
        Inl e \<Rightarrow> Inl e
      | Inr (smp, g') \<Rightarrow> Inr (Vec3f_add acc (snd (hd smp)), g'))"
  by (simp add: sample_def c_normalizedRange_def degenerate_def jittered_ray_def Let_def
      split: prod.splits sum.splits)

lemma integrator_samples_Suc:
  "integrator_samples ctx pixelCoord (Suc k) g =
     (case integrator_samples ctx pixelCoord (Suc 0) g of
        Inl e \<Rightarrow> Inl e
      | Inr (smp, g1) \<Rightarrow>
          (case integrator_samples ctx pixelCoord k g1 of
             Inl e \<Rightarrow> Inl e
           | Inr (rest, g') \<Rightarrow> Inr (hd smp # rest, g')))"
  by (simp add: Let_def split: prod.splits sum.splits)

lemma sample_loop_eq:
  assumes "k = nat (samplesPerPixel ctx - sampleIndex)"
  shows "sample_loop ctx pixelCoord sampleIndex (acc, g) =
     (case integrator_samples ctx pixelCoord k g of
        Inl e \<Rightarrow> Inl e
      | Inr (smp, g') \<Rightarrow> Inr (foldl Vec3f_add acc (map snd smp), g'))"
  using assms
proof (induction k arbitrary: sampleIndex acc g)
  case 0
  then show ?case
    by (subst sample_loop.simps) simp
next
  case (Suc k)
  then have less: "sampleIndex < samplesPerPixel ctx"
    and k: "k = nat (samplesPerPixel ctx - (sampleIndex + 1))"
    by simp_all
  show ?case
  proof (cases "integrator_samples ctx pixelCoord (Suc 0) g")
    case (Inl e)
    then show ?thesis
      by (subst sample_loop.simps, subst integrator_samples_Suc) (simp add: less sample_eq)
  next
    case (Inr r)
    obtain smp g1 where r: "r = (smp, g1)"
      by (cases r)
    show ?thesis
      by (subst sample_loop.simps, subst integrator_samples_Suc)
        (simp add: less sample_eq Inr r Suc.IH [OF k] split: sum.splits)
  qed
qed








lemma pixel_loop_range_for:
  assumes "range_for it e = Some pixels"
  shows "pixel_loop ctx it e st = Some (shade_pixels ctx pixels st)"
  using assms
proof (induction pixels arbitrary: it st)
  case Nil
  then have "\<not> not_equal it e"
    by (subst (asm) range_for.simps) (auto split: if_splits simp add: bind_eq_Some_conv)
  then show ?case
    by (subst pixel_loop.simps) simp
next
  case (Cons p pixels)
  from Cons.prems have ne: "not_equal it e" and p: "p = deref it"
    and rest: "range_for (increment it) e = Some pixels"
    by (subst (asm) range_for.simps, auto split: if_splits simp add: bind_eq_Some_conv)+
  show ?case
    by (subst pixel_loop.simps) (simp add: ne p Cons.IH [OF rest] split: sum.splits)
qed



section \<open>Command line and exit code\<close>

text \<open>
  C8. \<open>main\<close> registers the flags \<open>--width\<close>, \<open>--height\<close>, \<open>--output\<close>,
  \<open>--samplesPerPixel\<close> and \<open>--rayBounceLimit\<close>, each with a default value. When it
  returns, it returns \<open>0\<close> exactly when \<open>WritePPMImage\<close> reported success for the
  rendered image and \<open>-1\<close> exactly when it reported failure.
\<close>

theorem main_exit_code:
  "map long_flag main_options
     = [''--width'', ''--height'', ''--output'', ''--samplesPerPixel'', ''--rayBounceLimit'']
   \<and> map opt_default main_options = [Some ''384'', Some ''256'', Some ''out.ppm'', Some ''100'', Some ''50'']
   \<and> (main env argv g = Some (Inr code)
        \<longleftrightarrow> (\<exists>args img g'. env_parse env main_options argv = Inr args
              \<and> render env args g = Some (Inr (img, g'))
              \<and> code = (if env_write env img (arg_output args) then 0 else - 1)))
   \<and> (main env argv g = Some (Inr 0)
        \<longleftrightarrow> (\<exists>args img g'. env_parse env main_options argv = Inr args
              \<and> render env args g = Some (Inr (img, g'))
              \<and> env_write env img (arg_output args)))
   \<and> (main env argv g = Some (Inr (- 1))
        \<longleftrightarrow> (\<exists>args img g'. env_parse env main_options argv = Inr args
              \<and> render env args g = Some (Inr (img, g'))
              \<and> \<not> env_write env img (arg_output args)))"
proof -
  have flags: "map long_flag main_options
      = [''--width'', ''--height'', ''--output'', ''--samplesPerPixel'', ''--rayBounceLimit'']"
    by (simp add: main_options_def long_flag_def)
  have defaults: "map opt_default main_options
      = [Some ''384'', Some ''256'', Some ''out.ppm'', Some ''100'', Some ''50'']"
    by (simp add: main_options_def)
  have code: "main env argv g = Some (Inr c)
      \<longleftrightarrow> (\<exists>args img g'. env_parse env main_options argv = Inr args
            \<and> render env args g = Some (Inr (img, g'))
            \<and> c = (if env_write env img (arg_output args) then 0 else - 1))" for c
    by (auto simp add: main_def split: sum.splits option.splits prod.splits)
  have zero: "main env argv g = Some (Inr 0)
      \<longleftrightarrow> (\<exists>args img g'. env_parse env main_options argv = Inr args
            \<and> render env args g = Some (Inr (img, g'))
            \<and> env_write env img (arg_output args))"
    unfolding code [of 0] by (auto split: if_splits)
  have minus: "main env argv g = Some (Inr (- 1))
      \<longleftrightarrow> (\<exists>args img g'. env_parse env main_options argv = Inr args
            \<and> render env args g = Some (Inr (img, g'))
            \<and> \<not> env_write env img (arg_output args))"
    unfolding code [of "- 1"] by (auto split: if_splits)
  show ?thesis
    using flags defaults code [of code] zero minus by blast
qed

lemma fold_scan_step_never_hit:
  assumes "\<not> objectHit s"
  shows "\<not> objectHit (fold (scan_step (\<lambda>obj i_ray rg rec. (False, rec)) r) objs s)"
  using assms by (induction objs arbitrary: s) (simp_all add: scan_step_def)

lemma scan_never_hit:
  "\<not> objectHit (scan (\<lambda>obj i_ray rg rec. (False, rec)) r rec0 objs)"
  by (simp add: scan_def scan_init_def fold_scan_step_never_hit)

theorem main_exit_code_witness:
  "main environment_example [''--width'', ''1'', ''--height'', ''1'', ''--samplesPerPixel'', ''1''] 0
     = Some (Inr 0)"
proof -
  let ?argv = "[''--width'', ''1'', ''--height'', ''1'', ''--samplesPerPixel'', ''1'']"
  let ?args = "\<lparr>arg_width = 1, arg_height = 1, arg_samplesPerPixel = 1,
                 arg_rayBounceLimit = 50, arg_output = ''out.ppm''\<rparr>"
  let ?ctx = "render_context environment_example ?args"
  let ?img = "\<lparr>buffer_width = 1, buffer_height = 1,
      buffer_pixels = (\<lambda>p. Vec3f 0 0 0)(Vec2i 0 0 := Vec3f (sqrt (1 / 2)) (sqrt (7 / 10)) 1)\<rparr>"
  have parse: "env_parse environment_example main_options ?argv = Inr ?args"
    by (simp add: environment_example_def)
  have pixels: "range_for (Vec2iRange_begin (Vec2iRange (Vec2i 0 0) (Vec2i 1 1)))
      (Vec2iRange_end (Vec2iRange (Vec2i 0 0) (Vec2i 1 1))) = Some [Vec2i 0 0]"
    using range_for_rows [of "Vec2i 0 0" "Vec2i 1 1" 0 "Vec2iRange_end (Vec2iRange (Vec2i 0 0) (Vec2i 1 1))"]
    by (simp add: Vec2iRange_begin_def Vec2iRange_end_def)
  have fields: "ctx_random ?ctx = midpoint_random" "ctx_stack ?ctx = 51" "rayBounceLimit ?ctx = 50"
    "samplesPerPixel ?ctx = 1" "imageWidth ?ctx = 1" "imageHeight ?ctx = 1"
    "camera ?ctx = camera_example" "ctx_hit ?ctx = (\<lambda>obj i_ray rg rec. (False, rec))"
    by (simp_all add: render_context_def environment_example_def)
  have ray: "jittered_ray ?ctx (Vec2i 0 0) (1 / 2) (1 / 2) = Ray (Vec3f 0 0 0) (Vec3f 0 0 (- 1))"
    by (simp add: jittered_ray_def fields camera_example_def Vec3f_add_def
        Vec3f_sub_def Vec3f_scale_def Normalize_def Length_def)
  have ok: "\<not> degenerate ?ctx (Vec2i 0 0) (1 / 2) (1 / 2)"
    by (simp add: degenerate_def fields camera_example_def Vec3f_add_def
        Vec3f_sub_def Vec3f_scale_def Length_def)
  have "51 = Suc 50"
    by simp
  then have color: "ComputeRayColor (ctx_hit ?ctx) (ctx_scatter ?ctx) (ctx_record ?ctx) 51
      (Ray (Vec3f 0 0 0) (Vec3f 0 0 (- 1))) 50 (sceneObjectPtrs ?ctx) h
      = Inr (Vec3f (1 / 2) (7 / 10) 1, h)" for h
    by (simp only: ComputeRayColor.simps fields) (simp add: scan_never_hit LinearInterpolation_def)
  have smp: "integrator_samples ?ctx (Vec2i 0 0) (Suc 0) 0
      = Inr ([((1 / 2, 1 / 2), Vec3f (1 / 2) (7 / 10) 1)], 2)"
    by (simp add: fields(1-3) midpoint_random_def ray ok color)
  have "sample_loop ?ctx (Vec2i 0 0) 0 (Vec3f 0 0 0, 0) =
      (case integrator_samples ?ctx (Vec2i 0 0) (Suc 0) 0 of
         Inl e \<Rightarrow> Inl e
       | Inr (smp, g') \<Rightarrow> Inr (foldl Vec3f_add (Vec3f 0 0 0) (map snd smp), g'))"
    by (rule sample_loop_eq) (simp add: fields(4))
  also have "\<dots> = Inr (Vec3f (1 / 2) (7 / 10) 1, 2)"
    unfolding smp by (simp add: Vec3f_add_def)
  finally have loop: "sample_loop ?ctx (Vec2i 0 0) 0 (Vec3f 0 0 0, 0) = Inr (Vec3f (1 / 2) (7 / 10) 1, 2)" .
  have shade: "shade_pixel ?ctx (Vec2i 0 0) (ImageBuffer_new 1 1, 0) = Inr (?img, 2)"
    by (simp add: shade_pixel_def loop fields(4) Vec3f_div_def Clamp_def c_normalizedRange_def
        ImageBuffer_write_def ImageBuffer_new_def min_def max_def)
  have extent: "Extent (ImageBuffer_new 1 1) = Vec2iRange (Vec2i 0 0) (Vec2i 1 1)"
    by (simp add: Extent_def ImageBuffer_new_def)
  have "render environment_example ?args 0
      = pixel_loop ?ctx (Vec2iRange_begin (Vec2iRange (Vec2i 0 0) (Vec2i 1 1)))
          (Vec2iRange_end (Vec2iRange (Vec2i 0 0) (Vec2i 1 1))) (ImageBuffer_new 1 1, 0)"
    by (simp add: render_def Let_def extent)
  also have "\<dots> = Some (shade_pixels ?ctx [Vec2i 0 0] (ImageBuffer_new 1 1, 0))"
    by (rule pixel_loop_range_for [OF pixels])
  also have "\<dots> = Some (Inr (?img, 2))"
    by (simp add: shade)
  finally have "render environment_example ?args 0 = Some (Inr (?img, 2))" .
  moreover have "env_write environment_example ?img (arg_output ?args)"
    by (simp add: environment_example_def)
  ultimately show ?thesis
    using main_exit_code [of environment_example ?argv 0 0] parse by blast
qed

end
